theory Spec2Isabelle
  imports Main
begin

section \<open>Python strings\<close>

text \<open>
  A Python \<open>str\<close> is a sequence of Unicode code points, so it is modelled as a list of
  code points. \<open>ascii\<close> embeds an ASCII literal of the source.
\<close>

type_synonym pystr = "nat list"

definition ascii :: "string \<Rightarrow> pystr" where
  "ascii s = map of_char s"

text \<open>
  \<open>s.replace(old, new)\<close>: every non-overlapping occurrence of \<open>old\<close>, scanning from
  the left, is replaced by \<open>new\<close>. With an empty \<open>old\<close> Python puts \<open>new\<close> before
  every code point and at the end.
\<close>

function str_replace :: "pystr \<Rightarrow> pystr \<Rightarrow> pystr \<Rightarrow> pystr" where
  "str_replace [] old new = (if old = [] then new else [])"
| "str_replace (c # cs) old new =
     (if old = [] then new @ c # str_replace cs old new
      else if take (length old) (c # cs) = old
        then new @ str_replace (drop (length old) (c # cs)) old new
      else c # str_replace cs old new)"
  by pat_completeness auto
termination
  by (relation "measure (\<lambda>(s, old, new). length s)") auto

subsection \<open>The glyphs of the source\<close>

definition heavy_plus :: pystr where
  "heavy_plus = [0x2795]"

definition heavy_minus :: pystr where
  "heavy_minus = [0x2796]"

text \<open>The multiplication button is U+2716 followed by the variation selector U+FE0F.\<close>

definition heavy_multiplication :: pystr where
  "heavy_multiplication = [0x2716, 0xFE0F]"

definition heavy_division :: pystr where
  "heavy_division = [0x2797]"

definition multiplication_sign :: pystr where
  "multiplication_sign = [0xD7]"

definition division_sign :: pystr where
  "division_sign = [0xF7]"

definition greek_pi :: pystr where
  "greek_pi = [0x3C0]"

definition erase_to_the_left :: pystr where
  "erase_to_the_left = [0x232B]"

section \<open>Display transform and the substitutions of the equals button\<close>

text \<open>\<open>transform_display\<close>, lines 157-165.\<close>

definition transform_display :: "pystr \<Rightarrow> pystr" where
  "transform_display expression =
     str_replace
       (str_replace
         (str_replace
           (str_replace expression heavy_plus (ascii ''+''))
           heavy_minus (ascii ''-''))
         heavy_multiplication multiplication_sign)
       heavy_division division_sign"

text \<open>
  The string handed to \<open>safe_eval\<close> by the equals button, lines 233-238: the local
  variable \<open>eval_expr\<close> after its three assignments.
\<close>

definition eval_expr :: "pystr \<Rightarrow> pystr" where
  "eval_expr expression =
     str_replace
       (str_replace
         (str_replace
           (str_replace
             (str_replace
               (str_replace expression greek_pi (ascii ''pi''))
               heavy_plus (ascii ''+''))
             heavy_minus (ascii ''-''))
           heavy_division (ascii ''/''))
         heavy_multiplication (ascii ''*''))
       (ascii ''^'') (ascii ''**'')"

section \<open>Exceptions\<close>

text \<open>
  The exception classes that the \<open>except\<close> clauses of the source name, their built-in
  subclasses, and some classes that no clause names. An \<open>except (A, B)\<close> clause catches
  an exception whose class is \<open>A\<close> or \<open>B\<close> or a subclass of one of them.
\<close>

datatype exc_class =
    SympifyError | NameError | UnboundLocalError | TypeError | SyntaxError
  | IndentationError | ValueError | ZeroDivisionError | OverflowError
  | AttributeError | KeyError | RecursionError

text \<open>The proper superclasses of a class, among the classes above.\<close>

fun superclasses :: "exc_class \<Rightarrow> exc_class list" where
  "superclasses SympifyError = [ValueError]"
| "superclasses UnboundLocalError = [NameError]"
| "superclasses IndentationError = [SyntaxError]"
| "superclasses _ = []"

definition isinstance :: "exc_class \<Rightarrow> exc_class \<Rightarrow> bool" where
  "isinstance e c = (e = c \<or> c \<in> set (superclasses e))"

definition except_matches :: "exc_class \<Rightarrow> exc_class list \<Rightarrow> bool" where
  "except_matches e classes = list_ex (isinstance e) classes"

section \<open>The function registry\<close>

text \<open>The objects that \<open>allowed_funcs\<close> binds, named as the source names them.\<close>

datatype impl =
    np_sin | np_cos | np_tan | np_arcsin | np_arccos | np_arctan
  | np_sinh | np_cosh | np_tanh | np_log10 | np_log | np_sqrt | np_exp
  | np_pi | np_e | np_abs | math_factorial

text \<open>
  A value that can be bound to a name of the callable: an object of the registry, or
  the integer default of \<open>local_dict.get(name, 0)\<close>.
\<close>

datatype pyobj = Obj impl | PyInt int

text \<open>A dict display: a later item with the same key replaces an earlier one.\<close>

definition dict_of :: "('k \<times> 'v) list \<Rightarrow> ('k \<rightharpoonup> 'v)" where
  "dict_of items = foldl (\<lambda>m (k, v). m(k \<mapsto> v)) Map.empty items"

text \<open>The items of \<open>allowed_funcs\<close>, lines 179-188, in the order of the source.\<close>

definition allowed_funcs_items :: "(string \<times> impl) list" where
  "allowed_funcs_items =
     [(''sin'', np_sin), (''cos'', np_cos), (''tan'', np_tan),
      (''asin'', np_arcsin), (''acos'', np_arccos), (''atan'', np_arctan),
      (''sinh'', np_sinh), (''cosh'', np_cosh), (''tanh'', np_tanh),
      (''log'', np_log10), (''ln'', np_log),
      (''sqrt'', np_sqrt), (''exp'', np_exp),
      (''pi'', np_pi), (''e'', np_e),
      (''abs'', np_abs),
      (''factorial'', math_factorial)]"

definition allowed_funcs :: "pystr \<rightharpoonup> pyobj" where
  "allowed_funcs = dict_of (map (\<lambda>(k, v). (ascii k, Obj v)) allowed_funcs_items)"

section \<open>The libraries the program calls\<close>

text \<open>
  SymPy, NumPy and SciPy are not part of the program. Their operations are a parameter
  of the model: a record of functions, each returning either the exception it raises
  (\<open>Inl\<close>) or its value (\<open>Inr\<close>). \<open>'e\<close> is the type of SymPy expressions, \<open>'f\<close> the
  type of the callables \<open>lambdify\<close> builds, \<open>'v\<close> the type of Python numbers.
\<close>

datatype module = Namespace "pystr \<rightharpoonup> pyobj" | Module string

record ('e, 'f, 'v) library =
  sympify :: "pystr \<Rightarrow> exc_class + 'e"
  free_symbols :: "'e \<Rightarrow> exc_class + 'e list"
  lambdify :: "'e list \<Rightarrow> 'e \<Rightarrow> module list \<Rightarrow> exc_class + 'f"
  call :: "'f \<Rightarrow> (pystr \<rightharpoonup> pyobj) \<Rightarrow> exc_class + 'v"
  quad :: "'f \<Rightarrow> 'v \<Rightarrow> 'v \<Rightarrow> exc_class + ('v \<times> 'v)"
  diff :: "'e \<Rightarrow> 'e \<Rightarrow> exc_class + 'e"
  subs :: "'e \<Rightarrow> 'e \<Rightarrow> 'v \<Rightarrow> exc_class + 'e"
  evalf :: "'e \<Rightarrow> exc_class + 'e"
  str_expr :: "'e \<Rightarrow> pystr"
  str_val :: "'v \<Rightarrow> pystr"

section \<open>What the page shows\<close>

datatype ('e, 'v) ui =
    Error_Invalid_Expression
  | Error_in_integration exc_class
  | Error_in_differentiation exc_class
  | Success_Result 'v
  | Info_Estimated_Error 'v
  | Success_Derivative_at 'v 'e
  | Latex 'e 'e 'e
  | Rerun

section \<open>\<open>safe_eval\<close>\<close>

text \<open>
  Line 150, the keyword arguments of the call: one entry per free symbol, keyed by the
  symbol's name, holding \<open>local_dict.get(name, 0)\<close>.
\<close>

definition dict_get :: "('k \<rightharpoonup> 'v) \<Rightarrow> 'k \<Rightarrow> 'v \<Rightarrow> 'v" where
  "dict_get d k dflt = (case d k of Some v \<Rightarrow> v | None \<Rightarrow> dflt)"

definition args :: "('e, 'f, 'v) library \<Rightarrow> (pystr \<rightharpoonup> pyobj) \<Rightarrow> 'e list \<Rightarrow> (pystr \<rightharpoonup> pyobj)" where
  "args lib local_dict symbols =
     dict_of (map (\<lambda>s. (str_expr lib s, dict_get local_dict (str_expr lib s) (PyInt 0))) symbols)"

text \<open>The body of the \<open>try\<close>, lines 138-152: the first exception raised ends it.\<close>

definition safe_eval_try ::
  "('e, 'f, 'v) library \<Rightarrow> pystr \<Rightarrow> (pystr \<rightharpoonup> pyobj) \<Rightarrow> exc_class + 'v" where
  "safe_eval_try lib expr_str local_dict =
     (case sympify lib expr_str of Inl exn \<Rightarrow> Inl exn | Inr sympy_expr \<Rightarrow>
      case free_symbols lib sympy_expr of Inl exn \<Rightarrow> Inl exn | Inr symbols \<Rightarrow>
      case lambdify lib symbols sympy_expr [Namespace local_dict, Module ''numpy''] of
        Inl exn \<Rightarrow> Inl exn
      | Inr func \<Rightarrow> call lib func (args lib local_dict symbols))"

text \<open>
  \<open>safe_eval\<close>, lines 132-155. \<open>Inl\<close> is an exception that leaves the function;
  \<open>Inr (shown, r)\<close> is a return of \<open>r\<close> (\<open>None\<close> as \<open>None\<close>) after showing \<open>shown\<close>.
\<close>

definition safe_eval ::
  "('e, 'f, 'v) library \<Rightarrow> pystr \<Rightarrow> (pystr \<rightharpoonup> pyobj) \<Rightarrow>
     exc_class + (('e, 'v) ui list \<times> 'v option)" where
  "safe_eval lib expr_str local_dict =
     (case safe_eval_try lib expr_str local_dict of
        Inr v \<Rightarrow> Inr ([], Some v)
      | Inl exn \<Rightarrow>
          if except_matches exn [SympifyError, NameError, TypeError, SyntaxError]
          then Inr ([Error_Invalid_Expression], None)
          else Inl exn)"

section \<open>Session state and the handlers\<close>

record session =
  history :: "pystr list"
  expression :: "pystr"

text \<open>What a handler did: it ran to its end, or an exception left it.\<close>

datatype ('e, 'v) outcome = Completed "('e, 'v) ui list" | Propagated exc_class

text \<open>The \<open>=\<close> button, lines 230-244.\<close>

definition press_equals ::
  "('e, 'f, 'v) library \<Rightarrow> session \<Rightarrow> ('e, 'v) outcome \<times> session" where
  "press_equals lib st =
     (if expression st = [] then (Completed [], st)
      else case safe_eval lib (eval_expr (expression st)) allowed_funcs of
        Inl exn \<Rightarrow> (Propagated exn, st)
      | Inr (shown, None) \<Rightarrow> (Completed shown, st)
      | Inr (shown, Some result) \<Rightarrow>
          (Completed (shown @ [Rerun]),
           st\<lparr>history := history st @
                 [transform_display (expression st) @ ascii '' = '' @ str_val lib result],
               expression := str_val lib result\<rparr>))"

text \<open>The button grid, lines 223-253.\<close>

definition press_button ::
  "('e, 'f, 'v) library \<Rightarrow> pystr \<Rightarrow> session \<Rightarrow> ('e, 'v) outcome \<times> session" where
  "press_button lib label st =
     (if label = ascii ''='' then press_equals lib st
      else if label = ascii ''C'' then (Completed [Rerun], st\<lparr>expression := []\<rparr>)
      else if label = erase_to_the_left
        then (Completed [Rerun], st\<lparr>expression := butlast (expression st)\<rparr>)
      else (Completed [Rerun], st\<lparr>expression := expression st @ label\<rparr>))"

text \<open>The body of the \<open>try\<close> of "Calculate Integral", lines 297-300.\<close>

definition integral_try ::
  "('e, 'f, 'v) library \<Rightarrow> pystr \<Rightarrow> pystr \<Rightarrow> 'v \<Rightarrow> 'v \<Rightarrow> exc_class + ('v \<times> 'v)" where
  "integral_try lib func_str_int variable_int lower_limit upper_limit =
     (case sympify lib variable_int of Inl exn \<Rightarrow> Inl exn | Inr x \<Rightarrow>
      case sympify lib func_str_int of Inl exn \<Rightarrow> Inl exn | Inr sympy_func \<Rightarrow>
      case lambdify lib [x] sympy_func [Module ''numpy''] of Inl exn \<Rightarrow> Inl exn | Inr f \<Rightarrow>
        quad lib f lower_limit upper_limit)"

text \<open>"Calculate Integral", lines 295-307.\<close>

definition calculate_integral ::
  "('e, 'f, 'v) library \<Rightarrow> pystr \<Rightarrow> pystr \<Rightarrow> 'v \<Rightarrow> 'v \<Rightarrow> session \<Rightarrow>
     ('e, 'v) outcome \<times> session" where
  "calculate_integral lib func_str_int variable_int lower_limit upper_limit st =
     (case integral_try lib func_str_int variable_int lower_limit upper_limit of
        Inr (result, error) \<Rightarrow>
          (Completed [Success_Result result, Info_Estimated_Error error],
           st\<lparr>history := history st @
                 [[0x222B] @ ascii ''('' @ func_str_int @ ascii '') from ''
                  @ str_val lib lower_limit @ ascii '' to '' @ str_val lib upper_limit
                  @ ascii '' = '' @ str_val lib result]\<rparr>)
      | Inl exn \<Rightarrow>
          if except_matches exn [SympifyError, TypeError, ValueError]
          then (Completed [Error_in_integration exn], st)
          else (Propagated exn, st))"

text \<open>The body of the \<open>try\<close> of "Calculate Derivative", lines 322-326.\<close>

definition derivative_try ::
  "('e, 'f, 'v) library \<Rightarrow> pystr \<Rightarrow> pystr \<Rightarrow> 'v \<Rightarrow> exc_class + ('e \<times> 'e \<times> 'e \<times> 'e)" where
  "derivative_try lib func_str_diff variable_diff eval_point =
     (case sympify lib variable_diff of Inl exn \<Rightarrow> Inl exn | Inr x_sym \<Rightarrow>
      case sympify lib func_str_diff of Inl exn \<Rightarrow> Inl exn | Inr sympy_func \<Rightarrow>
      case diff lib sympy_func x_sym of Inl exn \<Rightarrow> Inl exn | Inr derivative_expr \<Rightarrow>
      case subs lib derivative_expr x_sym eval_point of Inl exn \<Rightarrow> Inl exn | Inr substituted \<Rightarrow>
      case evalf lib substituted of Inl exn \<Rightarrow> Inl exn | Inr result \<Rightarrow>
        Inr (x_sym, sympy_func, derivative_expr, result))"

text \<open>"Calculate Derivative", lines 320-333.\<close>

definition calculate_derivative ::
  "('e, 'f, 'v) library \<Rightarrow> pystr \<Rightarrow> pystr \<Rightarrow> 'v \<Rightarrow> session \<Rightarrow>
     ('e, 'v) outcome \<times> session" where
  "calculate_derivative lib func_str_diff variable_diff eval_point st =
     (case derivative_try lib func_str_diff variable_diff eval_point of
        Inr (x_sym, sympy_func, derivative_expr, result) \<Rightarrow>
          (Completed [Success_Derivative_at eval_point result,
                      Latex x_sym sympy_func derivative_expr],
           st\<lparr>history := history st @
                 [ascii ''d/d'' @ str_expr lib x_sym @ ascii ''('' @ func_str_diff
                  @ ascii '') at '' @ str_val lib eval_point
                  @ ascii '' = '' @ str_expr lib result]\<rparr>)
      | Inl exn \<Rightarrow>
          if except_matches exn [SympifyError, TypeError, ValueError]
          then (Completed [Error_in_differentiation exn], st)
          else (Propagated exn, st))"

text \<open>"Clear History", lines 343-345.\<close>

definition clear_history :: "session \<Rightarrow> session" where
  "clear_history st = st\<lparr>history := []\<rparr>"

section \<open>Failure of a request\<close>

text \<open>
  A request failed when an exception left its handler or the handler showed one of the
  three error messages of the source.
\<close>

fun is_error :: "('e, 'v) ui \<Rightarrow> bool" where
  "is_error Error_Invalid_Expression = True"
| "is_error (Error_in_integration _) = True"
| "is_error (Error_in_differentiation _) = True"
| "is_error _ = False"

fun failed :: "('e, 'v) outcome \<Rightarrow> bool" where
  "failed (Propagated _) = True"
| "failed (Completed shown) = list_ex is_error shown"

section \<open>An example environment\<close>

text \<open>
  The theorems below hold for every library. To instantiate them, \<open>sample_lib\<close> is one
  library: expressions, callables and numbers are represented by their text, and the
  library answers at the few inputs the examples use. \<open>sympify\<close> rejects \<open>2+\<close>; the
  only free symbol is that of \<open>e\<close>; the quadrature of \<open>1/x\<close> over \<open>[-1, 1]\<close> evaluates the integrand at
  the midpoint \<open>0.0\<close> and raises \<open>ZeroDivisionError\<close>.
\<close>

definition sample_lib :: "(pystr, pystr, pystr) library" where
  "sample_lib =
     \<lparr>sympify = (\<lambda>s. if s = ascii ''2+'' then Inl SympifyError else Inr s),
      free_symbols = (\<lambda>e. Inr (if e = ascii ''e'' then [ascii ''e''] else [])),
      lambdify = (\<lambda>symbols e modules. Inr e),
      call = (\<lambda>f kw.
        if f = ascii ''2+3*4'' then Inr (ascii ''14'')
        else if f = ascii ''e'' \<and> kw (ascii ''e'') = Some (Obj np_e)
          then Inr (ascii ''2.718281828459045'')
        else Inl NameError),
      quad = (\<lambda>f a b.
        if f = ascii ''1/x'' \<and> a = ascii ''-1.0'' \<and> b = ascii ''1.0''
        then Inl ZeroDivisionError else Inl ValueError),
      diff = (\<lambda>e x. Inr e),
      subs = (\<lambda>e x v. Inr e),
      evalf = (\<lambda>e. Inr e),
      str_expr = (\<lambda>e. e),
      str_val = (\<lambda>v. v)\<rparr>"

text \<open>Three sessions: a fresh one, and two with an expression typed on the buttons.\<close>

definition empty_session :: session where
  "empty_session = \<lparr>history = [], expression = []\<rparr>"

definition typing_two_plus :: session where
  "typing_two_plus = \<lparr>history = [ascii ''1 = 1''], expression = [50] @ heavy_plus\<rparr>"

definition typing_product :: session where
  "typing_product =
     \<lparr>history = [ascii ''1 = 1''],
      expression = [50] @ heavy_plus @ [51] @ heavy_multiplication @ [52]\<rparr>"

section \<open>Name resolution in the generated function\<close>

text \<open>
  To follow a name from the expression to the object it is resolved to, the library is
  instantiated further: \<open>py_lib\<close> fixes what \<open>lambdify\<close> builds and how Python calls
  it, for a fragment of SymPy's expressions (numbers, symbols and the application of a
  named function to one argument), and leaves the parser, the content of the named
  modules and the operations \<open>safe_eval\<close> does not use as parameters.
\<close>

datatype sexpr = Number pystr | Symbol pystr | Apply pystr sexpr

text \<open>
  A result: a number by its text, an object that a name was bound to, or the application
  of an implementation to a result (its floating-point value is not computed).
\<close>

datatype pyvalue = NumberValue pystr | ObjectValue pyobj | CallValue impl pyvalue

text \<open>The generated function: its parameters, its body and its global namespace.\<close>

datatype callable = Lambda "pystr list" sexpr "pystr \<rightharpoonup> pyobj"

fun symbols_of :: "sexpr \<Rightarrow> sexpr list" where
  "symbols_of (Number n) = []"
| "symbols_of (Symbol s) = [Symbol s]"
| "symbols_of (Apply f a) = symbols_of a"


fun sexpr_str :: "sexpr \<Rightarrow> pystr" where
  "sexpr_str (Number n) = n"
| "sexpr_str (Symbol s) = s"
| "sexpr_str (Apply f a) = f @ ascii ''('' @ sexpr_str a @ ascii '')''"

text \<open>
  The namespace \<open>lambdify\<close> builds from its \<open>modules\<close> argument: an earlier module
  takes priority over a later one.
\<close>

fun namespace :: "(string \<Rightarrow> pystr \<rightharpoonup> pyobj) \<Rightarrow> module list \<Rightarrow> (pystr \<rightharpoonup> pyobj)" where
  "namespace content [] = Map.empty"
| "namespace content (Namespace d # modules) = namespace content modules ++ d"
| "namespace content (Module m # modules) = namespace content modules ++ content m"

text \<open>The constants \<open>np.pi\<close> and \<open>np.e\<close> are floats; the other objects are functions.\<close>

fun is_callable :: "impl \<Rightarrow> bool" where
  "is_callable np_pi = False"
| "is_callable np_e = False"
| "is_callable _ = True"

fun py_apply :: "pyobj \<Rightarrow> pyvalue \<Rightarrow> exc_class + pyvalue" where
  "py_apply (Obj f) v = (if is_callable f then Inr (CallValue f v) else Inl TypeError)"
| "py_apply (PyInt n) v = Inl TypeError"

text \<open>A name is looked up among the parameters first, then in the global namespace.\<close>

definition py_lookup :: "(pystr \<rightharpoonup> pyobj) \<Rightarrow> (pystr \<rightharpoonup> pyobj) \<Rightarrow> pystr \<Rightarrow> pyobj option" where
  "py_lookup globals locals name =
     (case locals name of Some v \<Rightarrow> Some v | None \<Rightarrow> globals name)"

text \<open>
  Evaluation of the body: the name of the function is looked up, then the argument is
  evaluated, then the function is called. A name that is not bound raises \<open>NameError\<close>,
  the call of an object that is not a function raises \<open>TypeError\<close>.
\<close>

fun py_eval :: "(pystr \<rightharpoonup> pyobj) \<Rightarrow> (pystr \<rightharpoonup> pyobj) \<Rightarrow> sexpr \<Rightarrow> exc_class + pyvalue" where
  "py_eval globals locals (Number n) = Inr (NumberValue n)"
| "py_eval globals locals (Symbol s) =
     (case py_lookup globals locals s of
        None \<Rightarrow> Inl NameError
      | Some v \<Rightarrow> Inr (ObjectValue v))"
| "py_eval globals locals (Apply f a) =
     (case py_lookup globals locals f of
        None \<Rightarrow> Inl NameError
      | Some callee \<Rightarrow>
          (case py_eval globals locals a of
             Inl exn \<Rightarrow> Inl exn
           | Inr v \<Rightarrow> py_apply callee v))"

text \<open>\<open>func(**kw)\<close>: a parameter without an argument raises \<open>TypeError\<close>.\<close>

fun py_call :: "callable \<Rightarrow> (pystr \<rightharpoonup> pyobj) \<Rightarrow> exc_class + pyvalue" where
  "py_call (Lambda params body globals) kw =
     (if list_all (\<lambda>p. kw p \<noteq> None) params then py_eval globals kw body
      else Inl TypeError)"

definition py_lib ::
  "(pystr \<Rightarrow> exc_class + sexpr) \<Rightarrow> (string \<Rightarrow> pystr \<rightharpoonup> pyobj) \<Rightarrow>
     (sexpr, callable, pyvalue) library \<Rightarrow> (sexpr, callable, pyvalue) library" where
  "py_lib parse content rest =
     rest\<lparr>sympify := parse,
          free_symbols := (\<lambda>e. Inr (symbols_of e)),
          lambdify := (\<lambda>symbols e modules.
            Inr (Lambda (map sexpr_str symbols) e (namespace content modules))),
          call := py_call,
          str_expr := sexpr_str\<rparr>"

text \<open>
  What SymPy's parser answers at three inputs: its \<open>ln\<close> is its \<open>log\<close>, an unknown
  name followed by a parenthesis is the application of an undefined function, and a
  product with the factor 0 is 0.
\<close>

definition sympy_parse :: "pystr \<Rightarrow> exc_class + sexpr" where
  "sympy_parse s =
     (if s = ascii ''ln(e)'' then Inr (Apply (ascii ''log'') (Symbol (ascii ''e'')))
      else if s = ascii ''foo(2)'' then Inr (Apply (ascii ''foo'') (Number (ascii ''2'')))
      else if s = ascii ''0*foo(2)'' then Inr (Number (ascii ''0''))
      else Inl SympifyError)"

text \<open>The names of the module \<open>numpy\<close> for the objects of the registry.\<close>

definition numpy_module :: "string \<Rightarrow> pystr \<rightharpoonup> pyobj" where
  "numpy_module m =
     (if m = ''numpy''
      then map_of (map (\<lambda>(k, v). (ascii k, Obj v))
        [(''sin'', np_sin), (''cos'', np_cos), (''tan'', np_tan),
         (''arcsin'', np_arcsin), (''arccos'', np_arccos), (''arctan'', np_arctan),
         (''sinh'', np_sinh), (''cosh'', np_cosh), (''tanh'', np_tanh),
         (''log10'', np_log10), (''log'', np_log), (''sqrt'', np_sqrt), (''exp'', np_exp),
         (''pi'', np_pi), (''e'', np_e), (''abs'', np_abs)])
      else Map.empty)"

text \<open>
  The operations that \<open>safe_eval\<close> does not use, for the closed examples: each raises,
  and none plays a role in them.
\<close>

definition no_calculus :: "(sexpr, callable, pyvalue) library" where
  "no_calculus =
     \<lparr>sympify = (\<lambda>s. Inl SympifyError),
      free_symbols = (\<lambda>e. Inr []),
      lambdify = (\<lambda>symbols e modules. Inl TypeError),
      call = (\<lambda>f kw. Inl TypeError),
      quad = (\<lambda>f a b. Inl ValueError),
      diff = (\<lambda>e x. Inl ValueError),
      subs = (\<lambda>e x v. Inl ValueError),
      evalf = (\<lambda>e. Inl ValueError),
      str_expr = sexpr_str,
      str_val = (\<lambda>v. [])\<rparr>"

section \<open>Facts about strings and dicts\<close>

lemmas glyph_defs = heavy_plus_def heavy_minus_def heavy_multiplication_def heavy_division_def
  multiplication_sign_def division_sign_def greek_pi_def erase_to_the_left_def

lemmas except_defs = except_matches_def isinstance_def

lemma str_replace_absent: "c \<notin> set s \<Longrightarrow> str_replace s (c # r) new = s"
  by (induction s) auto

lemma str_replace_single:
  "str_replace s [c] new = concat (map (\<lambda>x. if x = c then new else [x]) s)"
  by (induction s) auto

lemma set_str_replace_single:
  "set (str_replace s [c] new) \<subseteq> (set s - {c}) \<union> set new"
  by (auto simp: str_replace_single split: if_splits)

lemma str_replace_append:
  "str_replace (xs @ ys) [c] new = str_replace xs [c] new @ str_replace ys [c] new"
  by (simp add: str_replace_single)

text \<open>
  Two replacements of single code points commute when neither replacement text holds
  the code point the other one looks for.
\<close>

lemma str_replace_commute:
  assumes "c \<noteq> d" and "c \<notin> set nd" and "d \<notin> set nc"
  shows "str_replace (str_replace s [c] nc) [d] nd = str_replace (str_replace s [d] nd) [c] nc"
proof (induction s)
  case Nil
  show ?case by simp
next
  case (Cons x s)
  have nc: "str_replace nc [d] nd = nc"
    using assms(3) by (rule str_replace_absent)
  have nd: "str_replace nd [c] nc = nd"
    using assms(2) by (rule str_replace_absent)
  show ?case
    using Cons.IH assms(1) nc nd
    by (cases "x = c"; cases "x = d") (simp_all add: str_replace_append)
qed

text \<open>
  Without a code point of the multiplication or the division button, the display
  transform only rewrites the addition and the subtraction button.
\<close>

lemma transform_display_plus_minus:
  assumes "0x2716 \<notin> set s" and "0x2797 \<notin> set s"
  shows "transform_display s =
    str_replace (str_replace s heavy_plus (ascii ''+'')) heavy_minus (ascii ''-'')"
proof -
  let ?t = "str_replace (str_replace s heavy_plus (ascii ''+'')) heavy_minus (ascii ''-'')"
  have "set ?t \<subseteq> set s \<union> {43, 45}"
    using set_str_replace_single [of s "0x2795" "ascii ''+''"]
      set_str_replace_single [of "str_replace s heavy_plus (ascii ''+'')" "0x2796" "ascii ''-''"]
    by (auto simp: glyph_defs ascii_def)
  with assms have "0x2716 \<notin> set ?t" and "0x2797 \<notin> set ?t"
    by auto
  then show ?thesis
    by (simp add: transform_display_def heavy_multiplication_def heavy_division_def
        str_replace_absent multiplication_sign_def division_sign_def)
qed

text \<open>The display glyphs of multiplication and division pass the substitutions unchanged.\<close>

lemma eval_expr_display_glyphs:
  "eval_expr multiplication_sign = multiplication_sign"
  "eval_expr division_sign = division_sign"
  by (simp_all add: eval_expr_def glyph_defs ascii_def)

lemma dict_of_foldl:
  "foldl (\<lambda>m (k, v). m(k \<mapsto> v)) m0 items = m0 ++ map_of (rev items)"
  by (induction items arbitrary: m0)
    (auto simp: map_add_upd_left fun_eq_iff map_add_def split: option.splits)

lemma dict_of_map_of: "dict_of items = map_of (rev items)"
  by (simp add: dict_of_def dict_of_foldl)

lemma args_lookup:
  "args lib local_dict symbols name =
     (if name \<in> str_expr lib ` set symbols
      then Some (case local_dict name of Some v \<Rightarrow> v | None \<Rightarrow> PyInt 0) else None)"
proof -
  let ?kv = "\<lambda>s. (str_expr lib s, dict_get local_dict (str_expr lib s) (PyInt 0))"
  have "map_of (map ?kv xs) name =
     (if name \<in> str_expr lib ` set xs
      then Some (dict_get local_dict name (PyInt 0)) else None)" for xs
    by (induction xs) auto
  from this [of "rev symbols"] show ?thesis
    by (simp add: args_def dict_of_map_of rev_map dict_get_def)
qed

section \<open>The registry\<close>

text \<open>
  The keys of \<open>allowed_funcs\<close> are the seventeen names of the source, and each name is
  bound to the object the source gives it: \<open>log\<close> to \<open>np.log10\<close>, \<open>ln\<close> to \<open>np.log\<close>.
\<close>

lemma allowed_funcs_dom:
  "dom allowed_funcs = ascii ` {''sin'', ''cos'', ''tan'', ''asin'', ''acos'', ''atan'',
     ''sinh'', ''cosh'', ''tanh'', ''log'', ''ln'', ''sqrt'', ''exp'', ''pi'', ''e'',
     ''abs'', ''factorial''}"
  by (simp add: allowed_funcs_def dict_of_map_of allowed_funcs_items_def dom_map_of_conv_image_fst)
    blast

lemma allowed_funcs_bindings:
  "map (\<lambda>name. allowed_funcs (ascii name))
     [''sin'', ''cos'', ''tan'', ''asin'', ''acos'', ''atan'', ''sinh'', ''cosh'', ''tanh'',
      ''log'', ''ln'', ''sqrt'', ''exp'', ''pi'', ''e'', ''abs'', ''factorial'']
   = map (\<lambda>v. Some (Obj v))
     [np_sin, np_cos, np_tan, np_arcsin, np_arccos, np_arctan, np_sinh, np_cosh, np_tanh,
      np_log10, np_log, np_sqrt, np_exp, np_pi, np_e, np_abs, math_factorial]"
  by (simp add: allowed_funcs_def dict_of_map_of allowed_funcs_items_def ascii_def)

lemma allowed_funcs_e: "allowed_funcs (ascii ''e'') = Some (Obj np_e)"
  by (simp add: allowed_funcs_def dict_of_map_of allowed_funcs_items_def ascii_def)

lemma allowed_funcs_log: "allowed_funcs (ascii ''log'') = Some (Obj np_log10)"
  by (simp add: allowed_funcs_def dict_of_map_of allowed_funcs_items_def ascii_def)



section \<open>Evaluation of the generated function\<close>

lemma py_lib_simps:
  "sympify (py_lib parse content rest) = parse"
  "free_symbols (py_lib parse content rest) = (\<lambda>e. Inr (symbols_of e))"
  "lambdify (py_lib parse content rest) =
     (\<lambda>symbols e modules. Inr (Lambda (map sexpr_str symbols) e (namespace content modules)))"
  "call (py_lib parse content rest) = py_call"
  "str_expr (py_lib parse content rest) = sexpr_str"
  by (simp_all add: py_lib_def)



section \<open>Results of \<open>safe_eval\<close> and of the calculus handlers\<close>

lemma safe_eval_Some:
  "safe_eval lib s d = Inr (shown, Some v) \<longleftrightarrow> shown = [] \<and> safe_eval_try lib s d = Inr v"
  by (auto simp: safe_eval_def split: sum.splits if_splits)

lemma safe_eval_None:
  "safe_eval lib s d = Inr (shown, None) \<Longrightarrow> shown = [Error_Invalid_Expression]"
  by (auto simp: safe_eval_def split: sum.splits if_splits)

text \<open>
  An exception of a class that the clause does not list leaves the operation. The
  clauses differ: \<open>NameError\<close> and \<open>SyntaxError\<close> are listed by \<open>safe_eval\<close> only,
  \<open>ValueError\<close> by the two calculus handlers only.
\<close>

lemma unlisted_exceptions_propagate:
  "safe_eval_try lib expr_str local_dict = Inl exn \<Longrightarrow>
     \<not> except_matches exn [SympifyError, NameError, TypeError, SyntaxError] \<Longrightarrow>
     safe_eval lib expr_str local_dict = Inl exn"
  "integral_try lib func_str_int variable_int lower_limit upper_limit = Inl exn \<Longrightarrow>
     \<not> except_matches exn [SympifyError, TypeError, ValueError] \<Longrightarrow>
     calculate_integral lib func_str_int variable_int lower_limit upper_limit st
       = (Propagated exn, st)"
  "derivative_try lib func_str_diff variable_diff eval_point = Inl exn \<Longrightarrow>
     \<not> except_matches exn [SympifyError, TypeError, ValueError] \<Longrightarrow>
     calculate_derivative lib func_str_diff variable_diff eval_point st
       = (Propagated exn, st)"
  by (simp_all add: safe_eval_def calculate_integral_def calculate_derivative_def)

lemma except_clauses_differ:
  "except_matches NameError [SympifyError, NameError, TypeError, SyntaxError]"
  "\<not> except_matches NameError [SympifyError, TypeError, ValueError]"
  "except_matches ValueError [SympifyError, TypeError, ValueError]"
  "\<not> except_matches ValueError [SympifyError, NameError, TypeError, SyntaxError]"
  by (simp_all add: except_defs)

text \<open>
  When every call of the library succeeds, "Calculate Integral" shows the value and the
  error estimate that \<open>quad\<close> returned for the limits as given, in whatever order they
  are, and "Calculate Derivative" shows the expression that \<open>diff\<close> returned and the
  value of \<open>subs\<close> and \<open>evalf\<close> at the point.
\<close>

lemma calculate_integral_success:
  assumes "sympify lib variable_int = Inr x"
    and "sympify lib func_str_int = Inr sympy_func"
    and "lambdify lib [x] sympy_func [Module ''numpy''] = Inr f"
    and "quad lib f lower_limit upper_limit = Inr (result, error)"
  shows "fst (calculate_integral lib func_str_int variable_int lower_limit upper_limit st)
      = Completed [Success_Result result, Info_Estimated_Error error]"
  using assms by (simp add: calculate_integral_def integral_try_def)

lemma calculate_derivative_success:
  assumes "sympify lib variable_diff = Inr x_sym"
    and "sympify lib func_str_diff = Inr sympy_func"
    and "diff lib sympy_func x_sym = Inr derivative_expr"
    and "subs lib derivative_expr x_sym eval_point = Inr substituted"
    and "evalf lib substituted = Inr result"
  shows "fst (calculate_derivative lib func_str_diff variable_diff eval_point st)
      = Completed [Success_Derivative_at eval_point result, Latex x_sym sympy_func derivative_expr]"
  using assms by (simp add: calculate_derivative_def derivative_try_def)

section \<open>The claims\<close>

subsection \<open>C1: which failures are caught\<close>

text \<open>
  Claim C1 says that no exception of an operation reaches the caller. It does not hold:
  no \<open>except\<close> clause of the program names \<open>ZeroDivisionError\<close>, so when the quadrature
  of \<open>1/x\<close> over \<open>[-1, 1]\<close> divides by zero, the exception leaves "Calculate Integral".
\<close>

theorem zero_division_leaves_calculate_integral:
  "fst (calculate_integral sample_lib (ascii ''1/x'') (ascii ''x'') (ascii ''-1.0'') (ascii ''1.0'')
     empty_session) = Propagated ZeroDivisionError"
  by (simp add: calculate_integral_def integral_try_def sample_lib_def ascii_def except_defs)

text \<open>
  Claim C1, as amended: whatever call of the library raises it, an exception of a class
  that the operation's \<open>except\<close> clause lists (or of a subclass) is caught at the
  operation's boundary and turned into the operation's error message: for \<open>safe_eval\<close>
  the classes \<open>SympifyError\<close>, \<open>NameError\<close>, \<open>TypeError\<close> and \<open>SyntaxError\<close>, for the
  two calculus handlers \<open>SympifyError\<close>, \<open>TypeError\<close> and \<open>ValueError\<close>.
\<close>

theorem listed_exceptions_are_caught:
  "(safe_eval_try lib expr_str local_dict = Inl exn
      \<and> except_matches exn [SympifyError, NameError, TypeError, SyntaxError]
    \<longrightarrow> safe_eval lib expr_str local_dict = Inr ([Error_Invalid_Expression], None))
   \<and> (integral_try lib func_str_int variable_int lower_limit upper_limit = Inl exn
      \<and> except_matches exn [SympifyError, TypeError, ValueError]
    \<longrightarrow> calculate_integral lib func_str_int variable_int lower_limit upper_limit st
          = (Completed [Error_in_integration exn], st))
   \<and> (derivative_try lib func_str_diff variable_diff eval_point = Inl exn
      \<and> except_matches exn [SympifyError, TypeError, ValueError]
    \<longrightarrow> calculate_derivative lib func_str_diff variable_diff eval_point st
          = (Completed [Error_in_differentiation exn], st))"
  by (simp add: safe_eval_def calculate_integral_def calculate_derivative_def)

text \<open>The three operations on the unparsable \<open>2+\<close>: each shows its error message.\<close>

theorem listed_exceptions_are_caught_witness:
  "(safe_eval_try sample_lib (ascii ''2+'') allowed_funcs = Inl SympifyError
      \<and> except_matches SympifyError [SympifyError, NameError, TypeError, SyntaxError]
      \<and> safe_eval sample_lib (ascii ''2+'') allowed_funcs = Inr ([Error_Invalid_Expression], None))
   \<and> (integral_try sample_lib (ascii ''2+'') (ascii ''x'') (ascii ''0.0'') (ascii ''1.0'')
        = Inl SympifyError
      \<and> except_matches SympifyError [SympifyError, TypeError, ValueError]
      \<and> calculate_integral sample_lib (ascii ''2+'') (ascii ''x'') (ascii ''0.0'') (ascii ''1.0'')
          empty_session
          = (Completed [Error_in_integration SympifyError], empty_session))
   \<and> (derivative_try sample_lib (ascii ''2+'') (ascii ''x'') (ascii ''0.0'') = Inl SympifyError
      \<and> except_matches SympifyError [SympifyError, TypeError, ValueError]
      \<and> calculate_derivative sample_lib (ascii ''2+'') (ascii ''x'') (ascii ''0.0'') empty_session
          = (Completed [Error_in_differentiation SympifyError], empty_session))"
proof -
  have a: "safe_eval_try sample_lib (ascii ''2+'') allowed_funcs = Inl SympifyError"
    by (simp add: safe_eval_try_def sample_lib_def)
  have b: "integral_try sample_lib (ascii ''2+'') (ascii ''x'') (ascii ''0.0'') (ascii ''1.0'')
      = Inl SympifyError"
    by (simp add: integral_try_def sample_lib_def ascii_def)
  have c: "derivative_try sample_lib (ascii ''2+'') (ascii ''x'') (ascii ''0.0'') = Inl SympifyError"
    by (simp add: derivative_try_def sample_lib_def ascii_def)
  have m1: "except_matches SympifyError [SympifyError, NameError, TypeError, SyntaxError]"
    and m2: "except_matches SympifyError [SympifyError, TypeError, ValueError]"
    by (simp_all add: except_defs)
  show ?thesis
    using listed_exceptions_are_caught [of sample_lib "ascii ''2+''" allowed_funcs SympifyError
        "ascii ''2+''" "ascii ''x''" "ascii ''0.0''" "ascii ''1.0''" empty_session
        "ascii ''2+''" "ascii ''x''" "ascii ''0.0''"] a b c m1 m2
    by simp
qed

subsection \<open>C2: display, then the substitutions of the equals button\<close>

text \<open>
  Claim C2 says that displaying an operator token and then applying the substitutions
  of the equals button gives the canonical operator again. It does not hold for the
  multiplication button: its display glyph is U+00D7, which the substitutions leave as
  it is, while the button itself becomes \<open>*\<close>.
\<close>

theorem multiplication_glyph_not_normalized:
  "eval_expr (transform_display heavy_multiplication) \<noteq> eval_expr heavy_multiplication"
  by (simp add: eval_expr_def transform_display_def glyph_defs ascii_def)

text \<open>
  Claim C2, as amended: for the addition and the subtraction button, whose display glyphs
  are the canonical \<open>+\<close> and \<open>-\<close>, the round trip holds in every expression: when an
  expression holds neither U+2716 (multiplication button) nor U+2797 (division button),
  the substitutions of the equals button give the same string on the displayed
  expression as on the expression itself.
\<close>

theorem display_then_normalize_plus_minus:
  assumes "0x2716 \<notin> set s" and "0x2797 \<notin> set s"
  shows "eval_expr (transform_display s) = eval_expr s"
proof -
  let ?P = "\<lambda>x. str_replace x heavy_plus (ascii ''+'')"
  let ?M = "\<lambda>x. str_replace x heavy_minus (ascii ''-'')"
  let ?Pi = "\<lambda>x. str_replace x greek_pi (ascii ''pi'')"
  let ?rest = "\<lambda>x. str_replace (str_replace (str_replace x heavy_division (ascii ''/''))
      heavy_multiplication (ascii ''*'')) (ascii ''^'') (ascii ''**'')"
  have idemP: "?P (?P x) = ?P x" for x
    using set_str_replace_single [of x "0x2795" "ascii ''+''"]
    by (intro str_replace_absent [of "0x2795" _ "[]", folded heavy_plus_def])
      (auto simp: glyph_defs ascii_def)
  have idemM: "?M (?M x) = ?M x" for x
    using set_str_replace_single [of x "0x2796" "ascii ''-''"]
    by (intro str_replace_absent [of "0x2796" _ "[]", folded heavy_minus_def])
      (auto simp: glyph_defs ascii_def)
  have PiP: "?Pi (?P x) = ?P (?Pi x)" for x
    unfolding glyph_defs ascii_def by (rule str_replace_commute) simp_all
  have PiM: "?Pi (?M x) = ?M (?Pi x)" for x
    unfolding glyph_defs ascii_def by (rule str_replace_commute) simp_all
  have PM: "?P (?M x) = ?M (?P x)" for x
    unfolding glyph_defs ascii_def by (rule str_replace_commute) simp_all
  have "eval_expr (transform_display s) = ?rest (?M (?P (?Pi (?M (?P s)))))"
    by (simp add: eval_expr_def transform_display_plus_minus [OF assms])
  also have "?M (?P (?Pi (?M (?P s)))) = ?M (?P (?Pi s))"
    by (simp add: PiP PiM PM idemP idemM)
  also have "?rest (?M (?P (?Pi s))) = eval_expr s"
    by (simp add: eval_expr_def)
  finally show ?thesis .
qed

text \<open>The expression \<open>2\<close>, addition button, \<open>3\<close>, subtraction button, \<open>1\<close>.\<close>

theorem display_then_normalize_plus_minus_witness:
  "0x2716 \<notin> set ([50] @ heavy_plus @ [51] @ heavy_minus @ [49])
   \<and> 0x2797 \<notin> set ([50] @ heavy_plus @ [51] @ heavy_minus @ [49])
   \<and> eval_expr (transform_display ([50] @ heavy_plus @ [51] @ heavy_minus @ [49]))
       = eval_expr ([50] @ heavy_plus @ [51] @ heavy_minus @ [49])"
  using display_then_normalize_plus_minus [of "[50] @ heavy_plus @ [51] @ heavy_minus @ [49]"]
  by (simp add: heavy_plus_def heavy_minus_def)

subsection \<open>C3: the bindings of the free symbols\<close>

text \<open>
  Claim C3: once the expression is parsed and turned into a callable, \<open>safe_eval\<close> calls
  it with keyword arguments that bind exactly the names of the free symbols, each to
  the value the registry has for the name, and to the integer 0 when it has none.
\<close>

theorem safe_eval_binds_free_symbols:
  assumes "sympify lib expr_str = Inr sympy_expr"
    and "free_symbols lib sympy_expr = Inr symbols"
    and "lambdify lib symbols sympy_expr [Namespace local_dict, Module ''numpy''] = Inr func"
  shows "safe_eval_try lib expr_str local_dict = call lib func (args lib local_dict symbols)
    \<and> dom (args lib local_dict symbols) = str_expr lib ` set symbols
    \<and> (\<forall>s \<in> set symbols. args lib local_dict symbols (str_expr lib s) =
          Some (case local_dict (str_expr lib s) of Some v \<Rightarrow> v | None \<Rightarrow> PyInt 0))"
proof (intro conjI ballI)
  show "safe_eval_try lib expr_str local_dict = call lib func (args lib local_dict symbols)"
    using assms by (simp add: safe_eval_try_def)
  show "dom (args lib local_dict symbols) = str_expr lib ` set symbols"
    by (auto simp: dom_def args_lookup)
  show "args lib local_dict symbols (str_expr lib s) =
          Some (case local_dict (str_expr lib s) of Some v \<Rightarrow> v | None \<Rightarrow> PyInt 0)"
    if "s \<in> set symbols" for s
    using that by (simp add: args_lookup)
qed

text \<open>The expression \<open>e\<close>: its one free symbol is bound to the registry's \<open>np.e\<close>.\<close>

theorem safe_eval_binds_free_symbols_witness:
  "safe_eval_try sample_lib (ascii ''e'') allowed_funcs
      = call sample_lib (ascii ''e'') (args sample_lib allowed_funcs [ascii ''e''])
   \<and> dom (args sample_lib allowed_funcs [ascii ''e'']) = {ascii ''e''}
   \<and> args sample_lib allowed_funcs [ascii ''e''] (ascii ''e'') = Some (Obj np_e)"
proof -
  have a: "sympify sample_lib (ascii ''e'') = Inr (ascii ''e'')"
    by (simp add: sample_lib_def ascii_def)
  have b: "free_symbols sample_lib (ascii ''e'') = Inr [ascii ''e'']"
    by (simp add: sample_lib_def)
  have c: "lambdify sample_lib [ascii ''e''] (ascii ''e'') [Namespace allowed_funcs, Module ''numpy'']
      = Inr (ascii ''e'')"
    by (simp add: sample_lib_def)
  have d: "str_expr sample_lib = (\<lambda>e. e)"
    by (simp add: sample_lib_def)
  show ?thesis
    using safe_eval_binds_free_symbols [OF a b c] by (simp add: d allowed_funcs_e)
qed

subsection \<open>C4: a failed request changes nothing\<close>

text \<open>
  Claim C4: when a request fails, in any of the three modes, the session is what it was
  before: the history has no new entry and the expression is unchanged. So the history
  grows only when a request succeeds.
\<close>

theorem failure_leaves_session_unchanged:
  "(failed (fst (press_equals lib st)) \<longrightarrow> snd (press_equals lib st) = st)
   \<and> (failed (fst (calculate_integral lib func_str_int variable_int lower_limit upper_limit st))
      \<longrightarrow> snd (calculate_integral lib func_str_int variable_int lower_limit upper_limit st) = st)
   \<and> (failed (fst (calculate_derivative lib func_str_diff variable_diff eval_point st))
      \<longrightarrow> snd (calculate_derivative lib func_str_diff variable_diff eval_point st) = st)"
proof (intro conjI impI)
  assume "failed (fst (press_equals lib st))"
  then show "snd (press_equals lib st) = st"
    by (auto simp: press_equals_def safe_eval_Some
        split: if_splits sum.splits option.splits prod.splits)
next
  assume "failed (fst (calculate_integral lib func_str_int variable_int lower_limit upper_limit st))"
  then show "snd (calculate_integral lib func_str_int variable_int lower_limit upper_limit st) = st"
    by (auto simp: calculate_integral_def split: if_splits sum.splits prod.splits)
next
  assume "failed (fst (calculate_derivative lib func_str_diff variable_diff eval_point st))"
  then show "snd (calculate_derivative lib func_str_diff variable_diff eval_point st) = st"
    by (auto simp: calculate_derivative_def split: if_splits sum.splits prod.splits)
qed

text \<open>The three requests on \<open>2+\<close>, from a session with one history entry.\<close>

theorem failure_leaves_session_unchanged_witness:
  "(failed (fst (press_equals sample_lib typing_two_plus))
      \<and> snd (press_equals sample_lib typing_two_plus) = typing_two_plus)
   \<and> (failed (fst (calculate_integral sample_lib (ascii ''2+'') (ascii ''x'') (ascii ''0.0'')
          (ascii ''1.0'') typing_two_plus))
      \<and> snd (calculate_integral sample_lib (ascii ''2+'') (ascii ''x'') (ascii ''0.0'')
          (ascii ''1.0'') typing_two_plus) = typing_two_plus)
   \<and> (failed (fst (calculate_derivative sample_lib (ascii ''2+'') (ascii ''x'') (ascii ''0.0'')
          typing_two_plus))
      \<and> snd (calculate_derivative sample_lib (ascii ''2+'') (ascii ''x'') (ascii ''0.0'')
          typing_two_plus) = typing_two_plus)"
proof -
  have a: "safe_eval sample_lib (ascii ''2+'') allowed_funcs = Inr ([Error_Invalid_Expression], None)"
    by (simp add: safe_eval_def safe_eval_try_def sample_lib_def except_defs)
  have n: "eval_expr (expression typing_two_plus) = ascii ''2+''"
    by (simp add: typing_two_plus_def eval_expr_def glyph_defs ascii_def)
  have "expression typing_two_plus \<noteq> []"
    by (simp add: typing_two_plus_def)
  then have e: "failed (fst (press_equals sample_lib typing_two_plus))"
    by (simp add: press_equals_def n a)
  have i: "failed (fst (calculate_integral sample_lib (ascii ''2+'') (ascii ''x'') (ascii ''0.0'')
      (ascii ''1.0'') typing_two_plus))"
    by (simp add: calculate_integral_def integral_try_def sample_lib_def ascii_def except_defs)
  have d: "failed (fst (calculate_derivative sample_lib (ascii ''2+'') (ascii ''x'') (ascii ''0.0'')
      typing_two_plus))"
    by (simp add: calculate_derivative_def derivative_try_def sample_lib_def ascii_def except_defs)
  show ?thesis
    using failure_leaves_session_unchanged [of sample_lib typing_two_plus "ascii ''2+''"
        "ascii ''x''" "ascii ''0.0''" "ascii ''1.0''" "ascii ''2+''" "ascii ''x''" "ascii ''0.0''"]
      e i d
    by simp
qed

subsection \<open>C5: a function that nothing resolves\<close>




subsection \<open>C7: the registry and the natural logarithm\<close>

text \<open>
  Claim C7 says that evaluation dispatches through the registry correctly, \<open>ln\<close> being
  the natural logarithm. The registry binds \<open>ln\<close> to \<open>np.log\<close>, but that entry is never
  reached: SymPy parses \<open>ln\<close> as its \<open>log\<close>, and the registry, which comes before
  NumPy in the namespace of line 146, binds \<open>log\<close> to \<open>np.log10\<close>. So \<open>ln(e)\<close> is
  evaluated as \<open>np.log10(np.e)\<close>.
\<close>

theorem ln_dispatches_to_log10:
  "allowed_funcs (ascii ''ln'') = Some (Obj np_log)
   \<and> safe_eval (py_lib sympy_parse numpy_module no_calculus) (ascii ''ln(e)'') allowed_funcs
     = Inr ([], Some (CallValue np_log10 (ObjectValue (Obj np_e))))"
proof -
  have ln: "allowed_funcs (ascii ''ln'') = Some (Obj np_log)"
    by (simp add: allowed_funcs_def dict_of_map_of allowed_funcs_items_def ascii_def)
  have p: "sympy_parse (ascii ''ln(e)'') = Inr (Apply (ascii ''log'') (Symbol (ascii ''e'')))"
    by (simp add: sympy_parse_def ascii_def)
  let ?lib = "py_lib sympy_parse numpy_module no_calculus"
  let ?kw = "args ?lib allowed_funcs [Symbol (ascii ''e'')]"
  have kw: "?kw (ascii ''e'') = Some (Obj np_e)"
    by (simp add: args_lookup py_lib_simps allowed_funcs_e)
  have kw': "?kw (ascii ''log'') = None"
    by (simp add: args_lookup py_lib_simps) (simp add: ascii_def)
  have t: "safe_eval_try ?lib (ascii ''ln(e)'') allowed_funcs
      = py_call (Lambda [ascii ''e''] (Apply (ascii ''log'') (Symbol (ascii ''e'')))
          (namespace numpy_module [Namespace allowed_funcs, Module ''numpy''])) ?kw"
    by (simp add: safe_eval_try_def py_lib_simps p)
  have "safe_eval_try ?lib (ascii ''ln(e)'') allowed_funcs
      = Inr (CallValue np_log10 (ObjectValue (Obj np_e)))"
    unfolding t by (simp add: kw kw' py_lookup_def map_add_def allowed_funcs_log)
  with ln show ?thesis
    by (simp add: safe_eval_def)
qed

subsection \<open>C10: a successful equals\<close>

text \<open>
  Claim C10: when the expression is not empty and \<open>safe_eval\<close> returns a result, the
  equals button appends one history entry, the displayed expression followed by
  \<open> = \<close> and the result, and replaces the expression by the string of the result;
  the earlier history entries stay, and the session has no other component.
\<close>

theorem press_equals_success:
  assumes "expression st \<noteq> []"
    and "safe_eval lib (eval_expr (expression st)) allowed_funcs = Inr (shown, Some result)"
  shows "press_equals lib st =
      (Completed [Rerun],
       \<lparr>history = history st @
          [transform_display (expression st) @ ascii '' = '' @ str_val lib result],
        expression = str_val lib result\<rparr>)"
proof -
  from assms(2) have "shown = []"
    by (simp add: safe_eval_Some)
  with assms show ?thesis
    by (simp add: press_equals_def)
qed

text \<open>
  The expression \<open>2\<close>, addition button, \<open>3\<close>, multiplication button, \<open>4\<close>: the new
  history entry is \<open>2+3\<close>, U+00D7, \<open>4 = 14\<close> and the expression becomes \<open>14\<close>.
\<close>

theorem press_equals_success_witness:
  "expression typing_product \<noteq> []
   \<and> safe_eval sample_lib (eval_expr (expression typing_product)) allowed_funcs
       = Inr ([], Some (ascii ''14''))
   \<and> press_equals sample_lib typing_product =
      (Completed [Rerun],
       \<lparr>history = [ascii ''1 = 1'', [50, 43, 51, 215, 52] @ ascii '' = 14''],
        expression = ascii ''14''\<rparr>)"
proof -
  have a: "expression typing_product \<noteq> []"
    by (simp add: typing_product_def)
  have n: "eval_expr (expression typing_product) = ascii ''2+3*4''"
    by (simp add: typing_product_def eval_expr_def glyph_defs ascii_def)
  have b: "safe_eval sample_lib (eval_expr (expression typing_product)) allowed_funcs
       = Inr ([], Some (ascii ''14''))"
    unfolding n by (simp add: safe_eval_def safe_eval_try_def sample_lib_def ascii_def)
  have d: "transform_display (expression typing_product) = [50, 43, 51, 215, 52]"
    by (simp add: typing_product_def transform_display_def glyph_defs ascii_def)
  have s: "str_val sample_lib = (\<lambda>v. v)"
    by (simp add: sample_lib_def)
  show ?thesis
    using press_equals_success [OF a b, unfolded d s] a b
    by (simp add: typing_product_def ascii_def)
qed

end
